theory Spec2Isabelle
  imports Complex_Main
begin

section \<open>LoRA setup of the Stable Diffusion trainer\<close>

text \<open>
  A shallow embedding of \<^verbatim>\<open>modules/modelSetup/StableDiffusionLoRASetup.py\<close>.
  The class configures low-rank adapter training: it installs the adapter views, freezes
  the base networks, gates the gradient flags of the views on the training progress,
  builds the optimizer's parameter groups, places the networks on devices and reports the
  learning rates.

  Python objects are mutated in place; here every method takes the model and returns the
  updated one. A raise is a value \<open>Inl e\<close> of the result type.
\<close>

subsection \<open>Tensors, modules and the model\<close>

text \<open>
  A torch \<^verbatim>\<open>Parameter\<close> is an object with an identity: two modules can hold the
  same parameter, and a flag written through one is read through the other. A parameter
  is therefore an address, and the model carries the store of the per-parameter
  attributes (\<^verbatim>\<open>requires_grad\<close>, \<^verbatim>\<open>dtype\<close>).
\<close>

type_synonym param = nat

datatype torch_dtype = float32 | float16 | bfloat16

text \<open>The layer classes that \<^verbatim>\<open>isinstance\<close> tells apart in \<^verbatim>\<open>setup_model\<close>.\<close>

datatype layer = Linear | Conv2d | OtherLayer

text \<open>
  What the code reads of a \<^verbatim>\<open>torch.nn.Module\<close>: \<^verbatim>\<open>parameters()\<close>,
  \<^verbatim>\<open>named_modules()\<close> and the mode set by \<^verbatim>\<open>train()\<close> and \<^verbatim>\<open>eval()\<close>.
\<close>

record nn_module =
  parameters :: "param list"
  named_modules :: "(string \<times> layer) list"
  training :: bool

type_synonym device = string

text \<open>Objects of the training framework that the code only passes on are handles.\<close>

type_synonym noise_scheduler = nat
type_synonym optimizer = nat
type_synonym ema_tracker = nat
type_synonym state_dict = nat
type_synonym optimizations = nat

record train_progress =
  global_step :: nat

text \<open>
  \<^verbatim>\<open>StableDiffusionModel\<close>. An adapter view is \<open>None\<close> until it is installed.
  \<^verbatim>\<open>optimizer_state_dict\<close> and \<^verbatim>\<open>ema_state_dict\<close> are attributes that
  \<^verbatim>\<open>setup_model\<close> deletes; \<open>None\<close> there is the deleted attribute, and reading it
  raises \<^verbatim>\<open>AttributeError\<close>.
\<close>

record model =
  text_encoder :: nn_module
  unet :: nn_module
  vae :: nn_module
  text_encoder_lora :: "nn_module option"
  unet_lora :: "nn_module option"
  requires_grad :: "param \<Rightarrow> bool"
  dtype :: "param \<Rightarrow> torch_dtype"
  train_progress :: train_progress
  noise_scheduler :: noise_scheduler
  optimizer :: "optimizer option"
  optimizer_state_dict :: "state_dict option"
  ema :: "ema_tracker option"
  ema_state_dict :: "state_dict option"
  optimizations :: "optimizations option"
  text_encoder_device :: device
  vae_device :: device
  unet_device :: device
  depth_estimator_device :: "device option"

subsection \<open>Configuration\<close>

text \<open>The per-network part of \<^verbatim>\<open>TrainConfig\<close> (\<^verbatim>\<open>config.text_encoder\<close>, \<^verbatim>\<open>config.unet\<close>).\<close>

record part_config =
  train :: bool
  learning_rate :: real
  stop_training_after :: "nat option"

record train_config =
  text_encoder :: part_config
  unet :: part_config
  lora_rank :: nat
  lora_alpha :: real
  dropout_probability :: real
  lora_weight_dtype :: torch_dtype
  rescale_noise_scheduler_to_zero_terminal_snr :: bool
  align_prop :: bool
  latent_caching :: bool

text \<open>\<^verbatim>\<open>peft.LoraConfig\<close>, with the four arguments the code gives it.\<close>

record lora_config =
  r :: nat
  lora_alpha :: real
  lora_dropout :: real
  target_modules :: "string list"

text \<open>A parameter group of the optimizer: tensors and their learning rate.\<close>

record param_group =
  params :: "param list"
  lr :: real

subsection \<open>Collaborators\<close>

text \<open>
  The functions that the code calls and does not define: \<^verbatim>\<open>get_peft_model\<close> of the
  adapter library, \<^verbatim>\<open>create_param_groups\<close> and \<^verbatim>\<open>setup_optimizations\<close> of the
  base setup class, \<^verbatim>\<open>create_optimizer\<close> and \<^verbatim>\<open>create_ema\<close> of
  \<^verbatim>\<open>modules.util.create\<close>, the two methods of the model that rewrite its noise
  scheduler, and \<^verbatim>\<open>maybe_adjust_lrs\<close> of the optimizer's configuration. They are
  parameters of the embedding. The methods of the noise scheduler act on the scheduler,
  and what \<^verbatim>\<open>setup_optimizations\<close> arranges is kept in a field of its own: the
  embedding takes it that none of them writes a gradient flag or replaces a view.
\<close>

record collaborators =
  get_peft_model :: "nn_module \<Rightarrow> lora_config \<Rightarrow> string \<Rightarrow> nn_module"
  create_param_groups :: "train_config \<Rightarrow> param list \<Rightarrow> real \<Rightarrow> param_group"
  create_optimizer :: "param_group list \<Rightarrow> state_dict \<Rightarrow> train_config \<Rightarrow> optimizer"
  create_ema :: "param list \<Rightarrow> state_dict \<Rightarrow> train_config \<Rightarrow> ema_tracker"
  rescale_to_zero_terminal_snr :: "noise_scheduler \<Rightarrow> noise_scheduler"
  force_v_prediction :: "noise_scheduler \<Rightarrow> noise_scheduler"
  setup_optimizations :: "model \<Rightarrow> train_config \<Rightarrow> optimizations"
  maybe_adjust_lrs :: "real list \<Rightarrow> optimizer option \<Rightarrow> real list"

text \<open>The fields of the setup object (\<^verbatim>\<open>self\<close>).\<close>

record lora_setup =
  train_device :: device
  temp_device :: device
  debug_mode :: bool

datatype error = AttributeError string | AssertionError

subsection \<open>The stop predicates of the base setup\<close>

text \<open>
  Modelled from the spec: \<^verbatim>\<open>stop_text_encoder_training_elapsed\<close> and
  \<^verbatim>\<open>stop_unet_training_elapsed\<close> belong to \<^verbatim>\<open>BaseStableDiffusionSetup\<close>, which
  is not among the sources. The spec describes them as checking whether the configured
  stop step of the sub-network has passed; a threshold that is unset never passes.
\<close>

definition stop_training_elapsed :: "part_config \<Rightarrow> train_progress \<Rightarrow> bool" where
  "stop_training_elapsed pc tp =
     (case stop_training_after pc of
        None \<Rightarrow> False
      | Some n \<Rightarrow> n < global_step tp)"

definition stop_text_encoder_training_elapsed :: "train_config \<Rightarrow> train_progress \<Rightarrow> bool" where
  "stop_text_encoder_training_elapsed config tp =
     stop_training_elapsed (train_config.text_encoder config) tp"

definition stop_unet_training_elapsed :: "train_config \<Rightarrow> train_progress \<Rightarrow> bool" where
  "stop_unet_training_elapsed config tp =
     stop_training_elapsed (train_config.unet config) tp"

subsection \<open>Module methods\<close>

text \<open>
  \<^verbatim>\<open>Module.requires_grad_(flag)\<close> writes the flag to every parameter of the module,
  \<^verbatim>\<open>Module.to(dtype=d)\<close> the dtype.
\<close>

definition requires_grad_set :: "nn_module \<Rightarrow> bool \<Rightarrow> model \<Rightarrow> model" where
  "requires_grad_set net flag m =
     m\<lparr>requires_grad := (\<lambda>p. if p \<in> set (parameters net) then flag else requires_grad m p)\<rparr>"

definition to_dtype :: "nn_module \<Rightarrow> torch_dtype \<Rightarrow> model \<Rightarrow> model" where
  "to_dtype net d m =
     m\<lparr>dtype := (\<lambda>p. if p \<in> set (parameters net) then d else dtype m p)\<rparr>"

text \<open>\<^verbatim>\<open>view.parameters()\<close> on an attribute that may be \<open>None\<close>.\<close>

definition lora_parameters :: "nn_module option \<Rightarrow> error + param list" where
  "lora_parameters view =
     (case view of
        None \<Rightarrow> Inl (AttributeError ''parameters'')
      | Some v \<Rightarrow> Inr (parameters v))"

subsection \<open>Parameters for the optimizer and the EMA\<close>

text \<open>
  Both functions start from the empty list and extend it once for each sub-network that
  is trained; reading the parameters of a view that is \<open>None\<close> raises.
\<close>

definition create_parameters :: "model \<Rightarrow> train_config \<Rightarrow> error + param list" where
  "create_parameters m config =
     (case (if train (train_config.text_encoder config)
            then (case lora_parameters (text_encoder_lora m) of
                    Inl e \<Rightarrow> Inl e
                  | Inr ps \<Rightarrow> Inr ([] @ ps))
            else Inr [])
      of Inl e \<Rightarrow> Inl e
       | Inr params' \<Rightarrow>
           if train (train_config.unet config)
           then (case lora_parameters (unet_lora m) of
                   Inl e \<Rightarrow> Inl e
                 | Inr ps \<Rightarrow> Inr (params' @ ps))
           else Inr params')"

definition create_parameters_for_optimizer ::
  "collaborators \<Rightarrow> model \<Rightarrow> train_config \<Rightarrow> error + param_group list" where
  "create_parameters_for_optimizer ext m config =
     (case (if train (train_config.text_encoder config)
            then (case lora_parameters (text_encoder_lora m) of
                    Inl e \<Rightarrow> Inl e
                  | Inr ps \<Rightarrow>
                      Inr ([] @ [create_param_groups ext config ps
                                   (learning_rate (train_config.text_encoder config))]))
            else Inr [])
      of Inl e \<Rightarrow> Inl e
       | Inr param_groups \<Rightarrow>
           if train (train_config.unet config)
           then (case lora_parameters (unet_lora m) of
                   Inl e \<Rightarrow> Inl e
                 | Inr ps \<Rightarrow>
                     Inr (param_groups @ [create_param_groups ext config ps
                                            (learning_rate (train_config.unet config))]))
           else Inr param_groups)"

subsection \<open>\<^verbatim>\<open>setup_model\<close>\<close>

text \<open>
  Lines 68 to 84: an adapter view is built only where the model has none. The library
  call is given the base network, the adapter configuration (whose target modules are the
  names of the dense and the 2D convolution layers of the base network) and the adapter's
  name.
\<close>

definition setup_model_install :: "collaborators \<Rightarrow> model \<Rightarrow> train_config \<Rightarrow> model" where
  "setup_model_install ext m config =
     (let m1 =
        (case text_encoder_lora m of
           None \<Rightarrow>
             (let te_lora_config =
                \<lparr>r = lora_rank config,
                 lora_alpha = train_config.lora_alpha config,
                 lora_dropout = dropout_probability config,
                 target_modules =
                   [n. (n, l) \<leftarrow> named_modules (model.text_encoder m), l = Linear \<or> l = Conv2d]\<rparr>
              in m\<lparr>text_encoder_lora :=
                     Some (get_peft_model ext (model.text_encoder m) te_lora_config ''lora_te'')\<rparr>)
         | Some _ \<Rightarrow> m)
      in
        (case unet_lora m1 of
           None \<Rightarrow>
             (let unet_lora_config =
                \<lparr>r = lora_rank config,
                 lora_alpha = train_config.lora_alpha config,
                 lora_dropout = dropout_probability config,
                 target_modules =
                   [n. (n, l) \<leftarrow> named_modules (model.unet m1), l = Linear \<or> l = Conv2d]\<rparr>
              in m1\<lparr>unet_lora :=
                      Some (get_peft_model ext (model.unet m1) unet_lora_config ''lora_unet'')\<rparr>)
         | Some _ \<Rightarrow> m1))"

text \<open>
  Lines 86 to 98: the three base networks are frozen, then each view that is present
  gets the flag of its phase gate, read at the model's own training progress.
\<close>

definition setup_model_freeze :: "model \<Rightarrow> train_config \<Rightarrow> model" where
  "setup_model_freeze m config =
     (let m1 = requires_grad_set (model.text_encoder m) False m;
          m2 = requires_grad_set (model.unet m1) False m1;
          m3 = requires_grad_set (vae m2) False m2;
          m4 =
            (case text_encoder_lora m3 of
               None \<Rightarrow> m3
             | Some view \<Rightarrow>
                 (let train_text_encoder =
                    train (train_config.text_encoder config) \<and>
                    \<not> stop_text_encoder_training_elapsed config (train_progress m3)
                  in requires_grad_set view train_text_encoder m3))
      in
        (case unet_lora m4 of
           None \<Rightarrow> m4
         | Some view \<Rightarrow>
             (let train_unet =
                train (train_config.unet config) \<and>
                \<not> stop_unet_training_elapsed config (train_progress m4)
              in requires_grad_set view train_unet m4)))"

text \<open>
  Lines 100 to 105: the two casts have no guard, so a view that is \<open>None\<close> raises.
  Then the noise scheduler is rescaled when the configuration asks for it.
\<close>

definition setup_model_cast :: "collaborators \<Rightarrow> model \<Rightarrow> train_config \<Rightarrow> error + model" where
  "setup_model_cast ext m config =
     (case text_encoder_lora m of
        None \<Rightarrow> Inl (AttributeError ''to'')
      | Some te_view \<Rightarrow>
          (let m1 = to_dtype te_view (lora_weight_dtype config) m in
             (case unet_lora m1 of
                None \<Rightarrow> Inl (AttributeError ''to'')
              | Some unet_view \<Rightarrow>
                  (let m2 = to_dtype unet_view (lora_weight_dtype config) m1 in
                     Inr (if rescale_noise_scheduler_to_zero_terminal_snr config
                          then m2\<lparr>noise_scheduler :=
                                    force_v_prediction ext
                                      (rescale_to_zero_terminal_snr ext (noise_scheduler m2))\<rparr>
                          else m2)))))"

text \<open>
  Lines 107 to 117: the optimizer and the EMA tracker are built from the parameters and
  the saved state, and each saved state is deleted once it is used.
\<close>

definition setup_model_optimizer :: "collaborators \<Rightarrow> model \<Rightarrow> train_config \<Rightarrow> error + model" where
  "setup_model_optimizer ext m config =
     (case create_parameters_for_optimizer ext m config of
        Inl e \<Rightarrow> Inl e
      | Inr groups \<Rightarrow>
          (case optimizer_state_dict m of
             None \<Rightarrow> Inl (AttributeError ''optimizer_state_dict'')
           | Some osd \<Rightarrow>
               (let m1 = m\<lparr>optimizer := Some (create_optimizer ext groups osd config)\<rparr>;
                    m2 = m1\<lparr>optimizer_state_dict := None\<rparr>
                in
                  (case create_parameters m2 config of
                     Inl e \<Rightarrow> Inl e
                   | Inr ps \<Rightarrow>
                       (case ema_state_dict m2 of
                          None \<Rightarrow> Inl (AttributeError ''ema_state_dict'')
                        | Some esd \<Rightarrow>
                            (let m3 = m2\<lparr>ema := Some (create_ema ext ps esd config)\<rparr>;
                                 m4 = m3\<lparr>ema_state_dict := None\<rparr>
                             in Inr (m4\<lparr>optimizations :=
                                          Some (setup_optimizations ext m4 config)\<rparr>)))))))"

definition setup_model :: "collaborators \<Rightarrow> model \<Rightarrow> train_config \<Rightarrow> error + model" where
  "setup_model ext m config =
     (case setup_model_cast ext
             (setup_model_freeze (setup_model_install ext m config) config) config of
        Inl e \<Rightarrow> Inl e
      | Inr m1 \<Rightarrow> setup_model_optimizer ext m1 config)"

subsection \<open>\<^verbatim>\<open>after_optimizer_step\<close>\<close>

text \<open>
  The third argument is the training progress that the caller passes; the body reads
  \<^verbatim>\<open>model.train_progress\<close>.
\<close>

definition after_optimizer_step :: "model \<Rightarrow> train_config \<Rightarrow> train_progress \<Rightarrow> model" where
  "after_optimizer_step m config tp =
     (let m1 =
        (case text_encoder_lora m of
           None \<Rightarrow> m
         | Some view \<Rightarrow>
             (let train_text_encoder =
                train (train_config.text_encoder config) \<and>
                \<not> stop_text_encoder_training_elapsed config (train_progress m)
              in requires_grad_set view train_text_encoder m))
      in
        (case unet_lora m1 of
           None \<Rightarrow> m1
         | Some view \<Rightarrow>
             (let train_unet =
                train (train_config.unet config) \<and>
                \<not> stop_unet_training_elapsed config (train_progress m1)
              in requires_grad_set view train_unet m1)))"

subsection \<open>\<^verbatim>\<open>setup_train_device\<close>\<close>

text \<open>
  Modelled from the spec: the methods \<^verbatim>\<open>text_encoder_to\<close>, \<^verbatim>\<open>vae_to\<close>,
  \<^verbatim>\<open>unet_to\<close> and \<^verbatim>\<open>depth_estimator_to\<close> of \<^verbatim>\<open>StableDiffusionModel\<close>, which
  is not among the sources. Each places its network on the device it is given; the depth
  estimator is placed if the model has one.
\<close>

definition text_encoder_to :: "device \<Rightarrow> model \<Rightarrow> model" where
  "text_encoder_to d m = m\<lparr>text_encoder_device := d\<rparr>"

definition vae_to :: "device \<Rightarrow> model \<Rightarrow> model" where
  "vae_to d m = m\<lparr>vae_device := d\<rparr>"

definition unet_to :: "device \<Rightarrow> model \<Rightarrow> model" where
  "unet_to d m = m\<lparr>unet_device := d\<rparr>"

definition depth_estimator_to :: "device \<Rightarrow> model \<Rightarrow> model" where
  "depth_estimator_to d m =
     m\<lparr>depth_estimator_device := map_option (\<lambda>_. d) (depth_estimator_device m)\<rparr>"

text \<open>\<^verbatim>\<open>Module.train()\<close> and \<^verbatim>\<open>Module.eval()\<close>.\<close>

definition module_train :: "nn_module \<Rightarrow> nn_module" where
  "module_train net = net\<lparr>training := True\<rparr>"

definition module_eval :: "nn_module \<Rightarrow> nn_module" where
  "module_eval net = net\<lparr>training := False\<rparr>"

definition setup_train_device :: "lora_setup \<Rightarrow> model \<Rightarrow> train_config \<Rightarrow> model" where
  "setup_train_device self m config =
     (let vae_on_train_device = debug_mode self \<or> align_prop config;
          text_encoder_on_train_device =
            train (train_config.text_encoder config) \<or> align_prop config \<or>
            \<not> latent_caching config;
          m1 = text_encoder_to
                 (if text_encoder_on_train_device then train_device self else temp_device self) m;
          m2 = vae_to (if vae_on_train_device then train_device self else temp_device self) m1;
          m3 = unet_to (train_device self) m2;
          m4 = depth_estimator_to (temp_device self) m3;
          m5 = (if train (train_config.text_encoder config)
                then m4\<lparr>model.text_encoder := module_train (model.text_encoder m4)\<rparr>
                else m4\<lparr>model.text_encoder := module_eval (model.text_encoder m4)\<rparr>);
          m6 = m5\<lparr>vae := module_eval (vae m5)\<rparr>
      in
        (if train (train_config.unet config)
         then m6\<lparr>model.unet := module_train (model.unet m6)\<rparr>
         else m6\<lparr>model.unet := module_eval (model.unet m6)\<rparr>))"

subsection \<open>\<^verbatim>\<open>report_learning_rates\<close>\<close>




text \<open>Lines 168 to 172: the names of the groups that are trained, in this order.\<close>

definition lr_names :: "train_config \<Rightarrow> string list" where
  "lr_names config =
     (let names = [];
          names = (if train (train_config.text_encoder config) then names @ [''te''] else names)
      in (if train (train_config.unet config) then names @ [''unet''] else names))"


subsection \<open>Notions used in the statements\<close>

text \<open>The parameters that a view holds; none while the view is not installed.\<close>

definition view_parameters :: "nn_module option \<Rightarrow> param set" where
  "view_parameters view = (case view of None \<Rightarrow> {} | Some v \<Rightarrow> set (parameters v))"

text \<open>The parameters of the three base networks.\<close>

definition base_parameters :: "model \<Rightarrow> param set" where
  "base_parameters m =
     set (parameters (model.text_encoder m)) \<union> set (parameters (model.unet m)) \<union>
     set (parameters (vae m))"

text \<open>
  The phase gate in the spec's words: the sub-network is trained while its configuration
  says so and its stop threshold has not passed.
\<close>

definition should_train :: "part_config \<Rightarrow> train_progress \<Rightarrow> bool" where
  "should_train pc tp = (train pc \<and> \<not> stop_training_elapsed pc tp)"

text \<open>
  The gradient flags after both views have received the flag of their gate, on top of the
  flags \<open>rest\<close>. The view of the denoising network is written last, so its flag stands
  on a parameter that both views hold.
\<close>

definition gate_flags :: "model \<Rightarrow> train_config \<Rightarrow> (param \<Rightarrow> bool) \<Rightarrow> param \<Rightarrow> bool" where
  "gate_flags m config rest p =
     (if p \<in> view_parameters (unet_lora m)
      then train (train_config.unet config) \<and>
           \<not> stop_unet_training_elapsed config (train_progress m)
      else if p \<in> view_parameters (text_encoder_lora m)
      then train (train_config.text_encoder config) \<and>
           \<not> stop_text_encoder_training_elapsed config (train_progress m)
      else rest p)"

subsection \<open>A small model to evaluate the definitions on\<close>

definition example_text_encoder :: nn_module where
  "example_text_encoder =
     \<lparr>parameters = [1, 2],
      named_modules = [(''q_proj'', Linear), (''act'', OtherLayer)],
      training = False\<rparr>"

definition example_unet :: nn_module where
  "example_unet =
     \<lparr>parameters = [3, 4],
      named_modules = [(''conv_in'', Conv2d), (''to_k'', Linear), (''norm'', OtherLayer)],
      training = False\<rparr>"

definition example_vae :: nn_module where
  "example_vae = \<lparr>parameters = [5], named_modules = [(''decoder'', Conv2d)], training = True\<rparr>"

text \<open>
  The adapter library wraps the network it is given: the view it returns holds the
  weights of the base network and the new low-rank matrices.
\<close>

definition example_collaborators :: collaborators where
  "example_collaborators =
     \<lparr>get_peft_model =
        (\<lambda>net cfg name.
           net\<lparr>parameters := parameters net @ (if name = ''lora_te'' then [10, 11] else [20, 21])\<rparr>),
      create_param_groups = (\<lambda>config ps l. \<lparr>params = ps, lr = l\<rparr>),
      create_optimizer = (\<lambda>groups sd config. length groups),
      create_ema = (\<lambda>ps sd config. length ps),
      rescale_to_zero_terminal_snr = (\<lambda>ns. ns + 1),
      force_v_prediction = (\<lambda>ns. ns + 2),
      setup_optimizations = (\<lambda>m config. 0),
      maybe_adjust_lrs = (\<lambda>lrs opt. lrs)\<rparr>"

definition example_model :: model where
  "example_model =
     \<lparr>model.text_encoder = example_text_encoder,
      model.unet = example_unet,
      vae = example_vae,
      text_encoder_lora = None,
      unet_lora = None,
      requires_grad = (\<lambda>p. True),
      dtype = (\<lambda>p. float32),
      train_progress = \<lparr>global_step = 0\<rparr>,
      noise_scheduler = 0,
      optimizer = None,
      optimizer_state_dict = Some 0,
      ema = None,
      ema_state_dict = Some 0,
      optimizations = None,
      text_encoder_device = ''cpu'',
      vae_device = ''cpu'',
      unet_device = ''cpu'',
      depth_estimator_device = Some ''cpu''\<rparr>"

definition example_config :: train_config where
  "example_config =
     \<lparr>train_config.text_encoder = \<lparr>train = True, learning_rate = 1 / 1000, stop_training_after = None\<rparr>,
      train_config.unet = \<lparr>train = True, learning_rate = 1 / 10000, stop_training_after = None\<rparr>,
      lora_rank = 4,
      train_config.lora_alpha = 1,
      dropout_probability = 0,
      lora_weight_dtype = bfloat16,
      rescale_noise_scheduler_to_zero_terminal_snr = False,
      align_prop = False,
      latent_caching = True\<rparr>"

text \<open>The same configuration with neither network trained.\<close>

definition example_config_frozen :: train_config where
  "example_config_frozen =
     example_config
       \<lparr>train_config.text_encoder := \<lparr>train = False, learning_rate = 1 / 1000, stop_training_after = None\<rparr>,
        train_config.unet := \<lparr>train = False, learning_rate = 1 / 10000, stop_training_after = None\<rparr>\<rparr>"

definition example_setup :: lora_setup where
  "example_setup = \<lparr>train_device = ''cuda'', temp_device = ''cpu'', debug_mode = False\<rparr>"

text \<open>The model once \<^verbatim>\<open>setup_model\<close> has installed both views.\<close>

definition example_model_installed :: model where
  "example_model_installed =
     setup_model_install example_collaborators example_model example_config"


section \<open>Properties\<close>

subsection \<open>What each phase of \<^verbatim>\<open>setup_model\<close> changes\<close>

lemma requires_grad_set_sel:
  "model.text_encoder (requires_grad_set n f m) = model.text_encoder m"
  "model.unet (requires_grad_set n f m) = model.unet m"
  "vae (requires_grad_set n f m) = vae m"
  "text_encoder_lora (requires_grad_set n f m) = text_encoder_lora m"
  "unet_lora (requires_grad_set n f m) = unet_lora m"
  "train_progress (requires_grad_set n f m) = train_progress m"
  "requires_grad (requires_grad_set n f m) p =
     (if p \<in> set (parameters n) then f else requires_grad m p)"
  by (simp_all add: requires_grad_set_def)

lemma setup_model_freeze_upd:
  "setup_model_freeze m config =
     m\<lparr>requires_grad := requires_grad (setup_model_freeze m config)\<rparr>"
proof -
  have base: "\<exists>g. m = m\<lparr>requires_grad := g\<rparr>"
    by (rule exI [of _ "requires_grad m"]) simp
  have chain: "\<exists>g. requires_grad_set n f m1 = m\<lparr>requires_grad := g\<rparr>"
    if "\<exists>g. m1 = m\<lparr>requires_grad := g\<rparr>" for n f m1
  proof -
    from that obtain g where "m1 = m\<lparr>requires_grad := g\<rparr>" ..
    then have "requires_grad_set n f m1 =
        m\<lparr>requires_grad := (\<lambda>p. if p \<in> set (parameters n) then f else g p)\<rparr>"
      by (simp add: requires_grad_set_def)
    then show ?thesis by blast
  qed
  have "\<exists>g. setup_model_freeze m config = m\<lparr>requires_grad := g\<rparr>"
    by (cases "text_encoder_lora m"; cases "unet_lora m")
       (simp_all add: setup_model_freeze_def Let_def requires_grad_set_sel, (intro chain base)+)
  then obtain g where "setup_model_freeze m config = m\<lparr>requires_grad := g\<rparr>" ..
  then show ?thesis by simp
qed

lemma setup_model_freeze_requires_grad:
  "requires_grad (setup_model_freeze m config) p =
     gate_flags m config (\<lambda>p. if p \<in> base_parameters m then False else requires_grad m p) p"
  by (cases "text_encoder_lora m"; cases "unet_lora m")
     (simp_all add: setup_model_freeze_def Let_def requires_grad_set_sel gate_flags_def
        view_parameters_def base_parameters_def)

lemma setup_model_freeze_flags:
  "setup_model_freeze m config =
     m\<lparr>requires_grad := gate_flags m config
          (\<lambda>p. if p \<in> base_parameters m then False else requires_grad m p)\<rparr>"
proof -
  have "requires_grad (setup_model_freeze m config) =
     gate_flags m config (\<lambda>p. if p \<in> base_parameters m then False else requires_grad m p)"
    by (rule ext) (rule setup_model_freeze_requires_grad)
  then show ?thesis
    using setup_model_freeze_upd [of m config] by simp
qed

lemma after_optimizer_step_flags:
  "after_optimizer_step m config tp = m\<lparr>requires_grad := gate_flags m config (requires_grad m)\<rparr>"
  by (cases "text_encoder_lora m"; cases "unet_lora m")
     (auto simp: after_optimizer_step_def requires_grad_set_def view_parameters_def Let_def
        fun_eq_iff gate_flags_def)

lemma setup_model_install_frame:
  "requires_grad (setup_model_install ext m config) = requires_grad m"
  "train_progress (setup_model_install ext m config) = train_progress m"
  "model.text_encoder (setup_model_install ext m config) = model.text_encoder m"
  "model.unet (setup_model_install ext m config) = model.unet m"
  "vae (setup_model_install ext m config) = vae m"
  "optimizer_state_dict (setup_model_install ext m config) = optimizer_state_dict m"
  "ema_state_dict (setup_model_install ext m config) = ema_state_dict m"
  by (simp_all add: setup_model_install_def Let_def split: option.splits)

lemma setup_model_install_views:
  "\<exists>v u. text_encoder_lora (setup_model_install ext m config) = Some v \<and>
     unet_lora (setup_model_install ext m config) = Some u"
  by (simp add: setup_model_install_def Let_def split: option.splits)

lemma setup_model_install_keeps:
  "text_encoder_lora m = Some v \<Longrightarrow>
     text_encoder_lora (setup_model_install ext m config) = Some v"
  "unet_lora m = Some u \<Longrightarrow> unet_lora (setup_model_install ext m config) = Some u"
  by (simp_all add: setup_model_install_def Let_def split: option.splits)

lemma setup_model_install_noop:
  "text_encoder_lora m = Some v \<Longrightarrow> unet_lora m = Some u \<Longrightarrow>
     setup_model_install ext m config = m"
  by (simp add: setup_model_install_def Let_def)

lemma setup_model_cast_frame:
  assumes "setup_model_cast ext m config = Inr m'"
  shows "requires_grad m' = requires_grad m" "text_encoder_lora m' = text_encoder_lora m"
    "unet_lora m' = unet_lora m" "train_progress m' = train_progress m"
    "model.text_encoder m' = model.text_encoder m" "model.unet m' = model.unet m" "vae m' = vae m"
    "optimizer_state_dict m' = optimizer_state_dict m" "ema_state_dict m' = ema_state_dict m"
  using assms
  by (auto simp: setup_model_cast_def to_dtype_def Let_def split: option.splits if_splits)

lemma setup_model_cast_returns:
  assumes "text_encoder_lora m = Some v" "unet_lora m = Some u"
  shows "\<exists>m'. setup_model_cast ext m config = Inr m'"
  using assms by (simp add: setup_model_cast_def to_dtype_def Let_def)

lemma setup_model_optimizer_frame:
  assumes "setup_model_optimizer ext m config = Inr m'"
  shows "requires_grad m' = requires_grad m" "text_encoder_lora m' = text_encoder_lora m"
    "unet_lora m' = unet_lora m" "train_progress m' = train_progress m"
    "model.text_encoder m' = model.text_encoder m" "model.unet m' = model.unet m" "vae m' = vae m"
  using assms
  by (auto simp: setup_model_optimizer_def Let_def split: option.splits sum.splits)

lemma create_parameters_views:
  assumes "text_encoder_lora m = Some v" "unet_lora m = Some u"
  shows "create_parameters m config =
           Inr ((if train (train_config.text_encoder config) then parameters v else []) @
                (if train (train_config.unet config) then parameters u else []))"
    and "create_parameters_for_optimizer ext m config =
           Inr ((if train (train_config.text_encoder config)
                 then [create_param_groups ext config (parameters v)
                         (learning_rate (train_config.text_encoder config))]
                 else []) @
                (if train (train_config.unet config)
                 then [create_param_groups ext config (parameters u)
                         (learning_rate (train_config.unet config))]
                 else []))"
  using assms
  by (simp_all add: create_parameters_def create_parameters_for_optimizer_def lora_parameters_def)

lemma setup_model_optimizer_result:
  assumes "text_encoder_lora m = Some v" "unet_lora m = Some u"
    and "optimizer_state_dict m = Some osd" "ema_state_dict m = Some esd"
  shows "\<exists>m'. setup_model_optimizer ext m config = Inr m' \<and>
           optimizer m' =
             Some (create_optimizer ext
                    ((if train (train_config.text_encoder config)
                      then [create_param_groups ext config (parameters v)
                              (learning_rate (train_config.text_encoder config))]
                      else []) @
                     (if train (train_config.unet config)
                      then [create_param_groups ext config (parameters u)
                              (learning_rate (train_config.unet config))]
                      else [])) osd config)"
proof -
  let ?m2 = "m\<lparr>optimizer := Some (create_optimizer ext
                    ((if train (train_config.text_encoder config)
                      then [create_param_groups ext config (parameters v)
                              (learning_rate (train_config.text_encoder config))]
                      else []) @
                     (if train (train_config.unet config)
                      then [create_param_groups ext config (parameters u)
                              (learning_rate (train_config.unet config))]
                      else [])) osd config),
                 optimizer_state_dict := None\<rparr>"
  have "text_encoder_lora ?m2 = Some v" "unet_lora ?m2 = Some u"
    using assms by simp_all
  from create_parameters_views(1) [OF this]
  show ?thesis
    using assms create_parameters_views(2) [OF assms(1,2), of ext config]
    by (simp add: setup_model_optimizer_def Let_def)
qed

lemma setup_model_optimizer_errors:
  assumes "setup_model_optimizer ext m config = Inl e"
    and "text_encoder_lora m = Some v" "unet_lora m = Some u"
  shows "(e = AttributeError ''optimizer_state_dict'' \<and> optimizer_state_dict m = None) \<or>
         (e = AttributeError ''ema_state_dict'' \<and> ema_state_dict m = None)"
proof (cases "optimizer_state_dict m")
  case None
  then show ?thesis
    using assms create_parameters_views(2) [OF assms(2,3), of ext config]
    by (simp add: setup_model_optimizer_def)
next
  case (Some osd)
  show ?thesis
  proof (cases "ema_state_dict m")
    case None
    let ?m2 = "m\<lparr>optimizer := Some (create_optimizer ext
                    ((if train (train_config.text_encoder config)
                      then [create_param_groups ext config (parameters v)
                              (learning_rate (train_config.text_encoder config))]
                      else []) @
                     (if train (train_config.unet config)
                      then [create_param_groups ext config (parameters u)
                              (learning_rate (train_config.unet config))]
                      else [])) osd config),
                 optimizer_state_dict := None\<rparr>"
    have "text_encoder_lora ?m2 = Some v" "unet_lora ?m2 = Some u"
      using assms by simp_all
    from create_parameters_views(1) [OF this]
    show ?thesis
      using assms None Some create_parameters_views(2) [OF assms(2,3), of ext config]
      by (simp add: setup_model_optimizer_def Let_def)
  next
    case (Some esd)
    with \<open>optimizer_state_dict m = Some osd\<close> assms(2,3)
    have "\<exists>m'. setup_model_optimizer ext m config = Inr m'"
      using setup_model_optimizer_result by blast
    with assms(1) show ?thesis by simp
  qed
qed

lemma setup_model_freeze_frame:
  "text_encoder_lora (setup_model_freeze m config) = text_encoder_lora m"
  "unet_lora (setup_model_freeze m config) = unet_lora m"
  "train_progress (setup_model_freeze m config) = train_progress m"
  "model.text_encoder (setup_model_freeze m config) = model.text_encoder m"
  "model.unet (setup_model_freeze m config) = model.unet m"
  "vae (setup_model_freeze m config) = vae m"
  "optimizer_state_dict (setup_model_freeze m config) = optimizer_state_dict m"
  "ema_state_dict (setup_model_freeze m config) = ema_state_dict m"
  by (subst setup_model_freeze_upd, simp)+

lemma setup_model_phases:
  "\<exists>mc v u. setup_model_cast ext (setup_model_freeze (setup_model_install ext m config) config)
                config = Inr mc \<and>
     setup_model ext m config = setup_model_optimizer ext mc config \<and>
     text_encoder_lora mc = Some v \<and> unet_lora mc = Some u \<and>
     text_encoder_lora (setup_model_install ext m config) = Some v \<and>
     unet_lora (setup_model_install ext m config) = Some u \<and>
     optimizer_state_dict mc = optimizer_state_dict m \<and>
     ema_state_dict mc = ema_state_dict m \<and>
     train_progress mc = train_progress m \<and>
     base_parameters mc = base_parameters m \<and>
     requires_grad mc =
       gate_flags (setup_model_install ext m config) config
         (\<lambda>p. if p \<in> base_parameters m then False else requires_grad m p)"
proof -
  let ?mi = "setup_model_install ext m config"
  let ?mf = "setup_model_freeze ?mi config"
  obtain v u where v: "text_encoder_lora ?mi = Some v" and u: "unet_lora ?mi = Some u"
    using setup_model_install_views by blast
  have b: "base_parameters ?mi = base_parameters m"
    by (simp add: base_parameters_def setup_model_install_frame)
  have fv: "text_encoder_lora ?mf = Some v" "unet_lora ?mf = Some u"
    using v u by (simp_all only: setup_model_freeze_frame)
  then obtain mc where c: "setup_model_cast ext ?mf config = Inr mc"
    using setup_model_cast_returns by blast
  note fr = setup_model_cast_frame [OF c]
  have 1: "setup_model ext m config = setup_model_optimizer ext mc config"
    using c by (simp only: setup_model_def sum.case)
  have 2: "text_encoder_lora mc = Some v" "unet_lora mc = Some u"
    using fr(2,3) fv by simp_all
  have 3: "optimizer_state_dict mc = optimizer_state_dict m"
    "ema_state_dict mc = ema_state_dict m" "train_progress mc = train_progress m"
    using fr(4,8,9) by (simp_all only: setup_model_freeze_frame setup_model_install_frame)
  have "base_parameters mc = base_parameters ?mi"
    unfolding base_parameters_def
    using fr(5-7) by (simp only: setup_model_freeze_frame)
  with b have 4: "base_parameters mc = base_parameters m" by simp
  have "requires_grad mc = gate_flags ?mi config
         (\<lambda>p. if p \<in> base_parameters ?mi then False else requires_grad ?mi p)"
    using fr(1) by (simp only: fun_eq_iff setup_model_freeze_requires_grad) simp
  then have 5: "requires_grad mc = gate_flags ?mi config
         (\<lambda>p. if p \<in> base_parameters m then False else requires_grad m p)"
    by (simp only: b setup_model_install_frame)
  from c 1 2 v u 3 4 5 show ?thesis
    by blast
qed

lemma setup_model_result:
  assumes "setup_model ext m config = Inr m'"
  shows "text_encoder_lora m' = text_encoder_lora (setup_model_install ext m config)"
    and "unet_lora m' = unet_lora (setup_model_install ext m config)"
    and "train_progress m' = train_progress m"
    and "base_parameters m' = base_parameters m"
    and "requires_grad m' =
           gate_flags (setup_model_install ext m config) config
             (\<lambda>p. if p \<in> base_parameters m then False else requires_grad m p)"
proof -
  obtain mc v u where
    opt: "setup_model ext m config = setup_model_optimizer ext mc config"
    and views: "text_encoder_lora mc = Some v" "unet_lora mc = Some u"
      "text_encoder_lora (setup_model_install ext m config) = Some v"
      "unet_lora (setup_model_install ext m config) = Some u"
    and rest: "train_progress mc = train_progress m" "base_parameters mc = base_parameters m"
      "requires_grad mc =
         gate_flags (setup_model_install ext m config) config
           (\<lambda>p. if p \<in> base_parameters m then False else requires_grad m p)"
    using setup_model_phases [of ext m config] by blast
  from opt assms have "setup_model_optimizer ext mc config = Inr m'" by simp
  note fr = setup_model_optimizer_frame [OF this]
  show "text_encoder_lora m' = text_encoder_lora (setup_model_install ext m config)"
    using fr(2) views by simp
  show "unet_lora m' = unet_lora (setup_model_install ext m config)"
    using fr(3) views by simp
  show "train_progress m' = train_progress m"
    using fr(4) rest by simp
  show "base_parameters m' = base_parameters m"
    using fr(5-7) rest(2) by (simp add: base_parameters_def)
  show "requires_grad m' =
           gate_flags (setup_model_install ext m config) config
             (\<lambda>p. if p \<in> base_parameters m then False else requires_grad m p)"
    using fr(1) rest(3) by simp
qed

lemma setup_model_returns:
  assumes "optimizer_state_dict m = Some osd" "ema_state_dict m = Some esd"
  shows "\<exists>m'. setup_model ext m config = Inr m'"
proof -
  obtain mc v u where
    opt: "setup_model ext m config = setup_model_optimizer ext mc config"
    and views: "text_encoder_lora mc = Some v" "unet_lora mc = Some u"
    and sd: "optimizer_state_dict mc = optimizer_state_dict m"
      "ema_state_dict mc = ema_state_dict m"
    using setup_model_phases [of ext m config] by blast
  from sd assms have "optimizer_state_dict mc = Some osd" "ema_state_dict mc = Some esd"
    by simp_all
  from setup_model_optimizer_result [OF views this, of ext config] opt
  show ?thesis by auto
qed

lemma gate_flags_cong:
  assumes "text_encoder_lora m' = text_encoder_lora m" "unet_lora m' = unet_lora m"
    and "train_progress m' = train_progress m"
  shows "gate_flags m' config rest = gate_flags m config rest"
  using assms by (simp add: gate_flags_def fun_eq_iff)

subsection \<open>The phase gate is what the views receive\<close>

text \<open>
  Claim C1. In \<^verbatim>\<open>after_optimizer_step\<close> and in \<^verbatim>\<open>setup_model\<close> alike, each view
  that is present receives the flag \<open>train \<and> \<not> stop_training_elapsed\<close> of its
  sub-network, read at the training progress of the model. The state that results is the
  one of \<open>gate_flags\<close>: every parameter of the view of the denoising network carries the
  flag of the denoising network, every other parameter of the view of the text encoder
  carries the flag of the text encoder, and no other parameter is written by the gate.
  When \<^verbatim>\<open>setup_model\<close> returns, both views are present, and the flags below the gate
  are those of the frozen base networks.
\<close>

theorem phase_gate_applied:
  "after_optimizer_step m config tp =
     m\<lparr>requires_grad := gate_flags m config (requires_grad m)\<rparr> \<and>
   (setup_model ext m config = Inr m' \<longrightarrow>
      text_encoder_lora m' \<noteq> None \<and> unet_lora m' \<noteq> None \<and>
      train_progress m' = train_progress m \<and>
      requires_grad m' =
        gate_flags m' config (\<lambda>p. if p \<in> base_parameters m then False else requires_grad m p))"
proof (intro conjI impI)
  show "after_optimizer_step m config tp =
     m\<lparr>requires_grad := gate_flags m config (requires_grad m)\<rparr>"
    by (rule after_optimizer_step_flags)
next
  assume r: "setup_model ext m config = Inr m'"
  note res = setup_model_result [OF r]
  show "text_encoder_lora m' \<noteq> None" "unet_lora m' \<noteq> None"
    using res(1,2) setup_model_install_views [of ext m config] by auto
  show "train_progress m' = train_progress m" by (rule res(3))
  have "train_progress m' = train_progress (setup_model_install ext m config)"
    using res(3) by (simp add: setup_model_install_frame)
  from gate_flags_cong [OF res(1,2) this] res(5)
  show "requires_grad m' =
        gate_flags m' config (\<lambda>p. if p \<in> base_parameters m then False else requires_grad m p)"
    by simp
qed

lemma example_installed_views:
  "text_encoder_lora example_model_installed =
     Some (example_text_encoder\<lparr>parameters := [1, 2, 10, 11]\<rparr>)"
  "unet_lora example_model_installed = Some (example_unet\<lparr>parameters := [3, 4, 20, 21]\<rparr>)"
  "train_progress example_model_installed = \<lparr>global_step = 0\<rparr>"
  "base_parameters example_model = {1, 2, 3, 4, 5}"
  by (auto simp: example_model_installed_def setup_model_install_def example_model_def
      example_collaborators_def example_text_encoder_def example_unet_def example_vae_def
      base_parameters_def Let_def)

lemma example_gates:
  "train (train_config.text_encoder example_config)"
  "train (train_config.unet example_config)"
  "\<not> stop_text_encoder_training_elapsed example_config tp"
  "\<not> stop_unet_training_elapsed example_config tp"
  by (simp_all add: example_config_def stop_text_encoder_training_elapsed_def
      stop_unet_training_elapsed_def stop_training_elapsed_def)

lemma example_setup_model:
  "\<exists>m'. setup_model example_collaborators example_model example_config = Inr m'"
  by (rule setup_model_returns [of _ 0 0]) (simp_all add: example_model_def)

theorem phase_gate_applied_witness:
  "requires_grad (after_optimizer_step example_model_installed example_config \<lparr>global_step = 7\<rparr>) 10 \<and>
   (\<exists>m'. setup_model example_collaborators example_model example_config = Inr m' \<and>
      requires_grad m' 10 \<and> requires_grad m' 20 \<and> \<not> requires_grad m' 5)"
proof -
  obtain m' where r: "setup_model example_collaborators example_model example_config = Inr m'"
    using example_setup_model by blast
  note res = setup_model_result [OF r]
  have views: "view_parameters (text_encoder_lora m') = {1, 2, 10, 11}"
    "view_parameters (unet_lora m') = {3, 4, 20, 21}"
    "view_parameters (text_encoder_lora example_model_installed) = {1, 2, 10, 11}"
    "view_parameters (unet_lora example_model_installed) = {3, 4, 20, 21}"
    using res(1,2) example_installed_views
    by (simp_all add: view_parameters_def example_model_installed_def)
  from phase_gate_applied [of example_model_installed example_config "\<lparr>global_step = 7\<rparr>"]
  have a: "after_optimizer_step example_model_installed example_config \<lparr>global_step = 7\<rparr> =
      example_model_installed\<lparr>requires_grad :=
        gate_flags example_model_installed example_config (requires_grad example_model_installed)\<rparr>"
    by simp
  from phase_gate_applied [of example_model example_config _ example_collaborators m'] r
  have b: "requires_grad m' =
        gate_flags m' example_config
          (\<lambda>p. if p \<in> base_parameters example_model then False
                else requires_grad example_model p)"
    by simp
  have "requires_grad (after_optimizer_step example_model_installed example_config
          \<lparr>global_step = 7\<rparr>) 10"
    by (simp add: a gate_flags_def views example_gates)
  moreover have "requires_grad m' 10" "requires_grad m' 20" "\<not> requires_grad m' 5"
    by (simp_all add: b gate_flags_def views example_gates example_installed_views)
  ultimately show ?thesis
    using r by blast
qed

subsection \<open>Parameters of a configuration that trains nothing\<close>

text \<open>
  Claim C2. When neither the text encoder nor the denoising network is trained, both
  \<^verbatim>\<open>create_parameters_for_optimizer\<close> and \<^verbatim>\<open>create_parameters\<close> return the empty
  sequence, for every model: the views are not read, so a model without views does not
  raise either.
\<close>

theorem no_training_no_parameters:
  assumes "\<not> train (train_config.text_encoder config)"
    and "\<not> train (train_config.unet config)"
  shows "create_parameters_for_optimizer ext m config = Inr [] \<and>
         create_parameters m config = Inr []"
  using assms by (simp add: create_parameters_for_optimizer_def create_parameters_def)

theorem no_training_no_parameters_witness:
  "\<not> train (train_config.text_encoder example_config_frozen) \<and>
   \<not> train (train_config.unet example_config_frozen) \<and>
   create_parameters_for_optimizer example_collaborators example_model example_config_frozen = Inr [] \<and>
   create_parameters example_model example_config_frozen = Inr []"
proof -
  have h: "\<not> train (train_config.text_encoder example_config_frozen)"
    "\<not> train (train_config.unet example_config_frozen)"
    by (simp_all add: example_config_frozen_def)
  from no_training_no_parameters [OF h] h show ?thesis by simp
qed

subsection \<open>Installing the views\<close>

text \<open>
  Claim C4. The installation at the start of \<^verbatim>\<open>setup_model\<close> leaves a view that is
  already there as it is, whatever the adapter library would build: the view of the text
  encoder, the view of the denoising network, and the whole model when both are there.
  Installing a second time, with any collaborators and any configuration, changes
  nothing. The view that \<^verbatim>\<open>setup_model\<close> returns is the one on entry.
\<close>

theorem install_idempotent:
  "(text_encoder_lora m = Some v \<longrightarrow>
      text_encoder_lora (setup_model_install ext m config) = Some v) \<and>
   (unet_lora m = Some u \<longrightarrow> unet_lora (setup_model_install ext m config) = Some u) \<and>
   (text_encoder_lora m = Some v \<and> unet_lora m = Some u \<longrightarrow>
      setup_model_install ext m config = m) \<and>
   setup_model_install ext' (setup_model_install ext m config) config' =
     setup_model_install ext m config \<and>
   (setup_model ext m config = Inr m' \<longrightarrow>
      (text_encoder_lora m = Some v \<longrightarrow> text_encoder_lora m' = Some v) \<and>
      (unet_lora m = Some u \<longrightarrow> unet_lora m' = Some u))"
proof (intro conjI impI)
  show "setup_model_install ext' (setup_model_install ext m config) config' =
     setup_model_install ext m config"
  proof -
    obtain v' u' where "text_encoder_lora (setup_model_install ext m config) = Some v'"
      "unet_lora (setup_model_install ext m config) = Some u'"
      using setup_model_install_views by blast
    then show ?thesis by (rule setup_model_install_noop)
  qed
next
  assume "setup_model ext m config = Inr m'" "text_encoder_lora m = Some v"
  then show "text_encoder_lora m' = Some v"
    using setup_model_result(1) setup_model_install_keeps(1) by metis
next
  assume "setup_model ext m config = Inr m'" "unet_lora m = Some u"
  then show "unet_lora m' = Some u"
    using setup_model_result(2) setup_model_install_keeps(2) by metis
qed (simp_all add: setup_model_install_keeps setup_model_install_noop)

lemma example_installed_optimizer_state:
  "optimizer_state_dict example_model_installed = Some 0"
  "ema_state_dict example_model_installed = Some 0"
  by (simp_all add: example_model_installed_def setup_model_install_frame example_model_def)

theorem install_idempotent_witness:
  "\<exists>v u m'. text_encoder_lora example_model_installed = Some v \<and>
     unet_lora example_model_installed = Some u \<and>
     setup_model_install \<lparr>get_peft_model = (\<lambda>net cfg name. net),
         create_param_groups = (\<lambda>config ps l. \<lparr>params = [], lr = 0\<rparr>),
         create_optimizer = (\<lambda>groups sd config. 0), create_ema = (\<lambda>ps sd config. 0),
         rescale_to_zero_terminal_snr = (\<lambda>ns. ns), force_v_prediction = (\<lambda>ns. ns),
         setup_optimizations = (\<lambda>m config. 0), maybe_adjust_lrs = (\<lambda>lrs opt. lrs)\<rparr>
       example_model_installed example_config_frozen = example_model_installed \<and>
     setup_model example_collaborators example_model_installed example_config = Inr m' \<and>
     text_encoder_lora m' = Some v \<and> unet_lora m' = Some u"
proof -
  let ?v = "example_text_encoder\<lparr>parameters := [1, 2, 10, 11]\<rparr>"
  let ?u = "example_unet\<lparr>parameters := [3, 4, 20, 21]\<rparr>"
  obtain m' where
    r: "setup_model example_collaborators example_model_installed example_config = Inr m'"
    using setup_model_returns [OF example_installed_optimizer_state] by blast
  from install_idempotent [of example_model_installed ?v _ example_config_frozen ?u _ _ m']
    install_idempotent [of example_model_installed ?v example_collaborators example_config ?u
      _ _ m'] r example_installed_views(1,2)
  show ?thesis by simp
qed

text \<open>
  Claim C9. After the installation both views are present, for every model. So the two
  guarded branches that follow are the ones taken: the gate of each view is applied on
  top of the frozen base networks. The two casts find their views, and
  \<^verbatim>\<open>setup_model\<close> never raises the \<^verbatim>\<open>AttributeError\<close> of a view that is \<open>None\<close>,
  neither at the casts nor where the parameters of the views are collected.
\<close>

theorem views_present_after_install:
  "\<exists>v u mc.
     text_encoder_lora (setup_model_install ext m config) = Some v \<and>
     unet_lora (setup_model_install ext m config) = Some u \<and>
     setup_model_freeze (setup_model_install ext m config) config =
       requires_grad_set u
         (train (train_config.unet config) \<and>
          \<not> stop_unet_training_elapsed config (train_progress m))
         (requires_grad_set v
            (train (train_config.text_encoder config) \<and>
             \<not> stop_text_encoder_training_elapsed config (train_progress m))
            (requires_grad_set (vae m) False
               (requires_grad_set (model.unet m) False
                  (requires_grad_set (model.text_encoder m) False
                     (setup_model_install ext m config))))) \<and>
     setup_model_cast ext (setup_model_freeze (setup_model_install ext m config) config) config =
       Inr mc \<and>
     setup_model ext m config \<noteq> Inl (AttributeError ''to'') \<and>
     setup_model ext m config \<noteq> Inl (AttributeError ''parameters'')"
proof -
  let ?mi = "setup_model_install ext m config"
  obtain mc v u where
    c: "setup_model_cast ext (setup_model_freeze ?mi config) config = Inr mc"
    and opt: "setup_model ext m config = setup_model_optimizer ext mc config"
    and views: "text_encoder_lora mc = Some v" "unet_lora mc = Some u"
    and iviews: "text_encoder_lora ?mi = Some v" "unet_lora ?mi = Some u"
    using setup_model_phases [of ext m config] by blast
  have fr: "setup_model_freeze ?mi config =
       requires_grad_set u
         (train (train_config.unet config) \<and>
          \<not> stop_unet_training_elapsed config (train_progress m))
         (requires_grad_set v
            (train (train_config.text_encoder config) \<and>
             \<not> stop_text_encoder_training_elapsed config (train_progress m))
            (requires_grad_set (vae m) False
               (requires_grad_set (model.unet m) False
                  (requires_grad_set (model.text_encoder m) False ?mi))))"
    using iviews
    by (simp add: setup_model_freeze_def Let_def requires_grad_set_sel setup_model_install_frame)
  have "e \<noteq> AttributeError ''to'' \<and> e \<noteq> AttributeError ''parameters''"
    if "setup_model_optimizer ext mc config = Inl e" for e
    using setup_model_optimizer_errors [OF that views] by auto
  then have "setup_model ext m config \<noteq> Inl (AttributeError ''to'')"
    "setup_model ext m config \<noteq> Inl (AttributeError ''parameters'')"
    unfolding opt by blast+
  with c iviews fr show ?thesis by blast
qed

theorem views_present_after_install_witness:
  "\<exists>v u. text_encoder_lora (setup_model_install example_collaborators example_model example_config) =
       Some v \<and>
     unet_lora (setup_model_install example_collaborators example_model example_config) = Some u \<and>
     parameters v = [1, 2, 10, 11] \<and> parameters u = [3, 4, 20, 21] \<and>
     setup_model example_collaborators example_model example_config \<noteq> Inl (AttributeError ''to'')"
proof -
  from views_present_after_install [of example_collaborators example_model example_config]
  obtain v u where
    "text_encoder_lora (setup_model_install example_collaborators example_model example_config) =
       Some v"
    "unet_lora (setup_model_install example_collaborators example_model example_config) = Some u"
    "setup_model example_collaborators example_model example_config \<noteq> Inl (AttributeError ''to'')"
    by blast
  moreover from this example_installed_views(1,2)
  have "parameters v = [1, 2, 10, 11]" "parameters u = [3, 4, 20, 21]"
    by (simp_all add: example_model_installed_def)
  ultimately show ?thesis by blast
qed

lemma phase_gate_flags_of_setup:
  assumes "setup_model ext m config = Inr m'"
  shows "requires_grad m' =
        gate_flags m' config (\<lambda>p. if p \<in> base_parameters m then False else requires_grad m p)"
proof -
  note res = setup_model_result [OF assms]
  have "train_progress m' = train_progress (setup_model_install ext m config)"
    using res(3) by (simp add: setup_model_install_frame)
  from gate_flags_cong [OF res(1,2) this] res(5) show ?thesis by simp
qed

subsection \<open>Parameter groups and their names\<close>

text \<open>
  Claim C7. On a model with both views, \<^verbatim>\<open>create_parameters_for_optimizer\<close> returns
  the group of the text encoder's view first, if the text encoder is trained, then the
  group of the denoising network's view, if that is trained; each group is built from the
  parameters of the view and the learning rate configured for the sub-network. The names
  of \<^verbatim>\<open>report_learning_rates\<close> are \<open>te\<close> and \<open>unet\<close> under the same two
  conditions and in the same order. With both sub-networks trained and no stop
  threshold, \<^verbatim>\<open>setup_model\<close>, when it returns, leaves both views present, every
  parameter of either view requires gradients, and the optimizer was built from two
  groups, the text encoder's and then the denoising network's.
\<close>

theorem parameter_groups_order:
  "(text_encoder_lora m = Some v \<and> unet_lora m = Some u \<longrightarrow>
      create_parameters_for_optimizer ext m config =
        Inr ((if train (train_config.text_encoder config)
              then [create_param_groups ext config (parameters v)
                      (learning_rate (train_config.text_encoder config))]
              else []) @
             (if train (train_config.unet config)
              then [create_param_groups ext config (parameters u)
                      (learning_rate (train_config.unet config))]
              else []))) \<and>
   lr_names config =
     (if train (train_config.text_encoder config) then [''te''] else []) @
     (if train (train_config.unet config) then [''unet''] else []) \<and>
   (train (train_config.text_encoder config) \<and> train (train_config.unet config) \<and>
    stop_training_after (train_config.text_encoder config) = None \<and>
    stop_training_after (train_config.unet config) = None \<and>
    setup_model ext m config = Inr m' \<longrightarrow>
      (\<exists>v' u' osd.
         text_encoder_lora m' = Some v' \<and> unet_lora m' = Some u' \<and>
         (\<forall>p \<in> set (parameters v') \<union> set (parameters u'). requires_grad m' p) \<and>
         create_parameters_for_optimizer ext m' config =
           Inr [create_param_groups ext config (parameters v')
                  (learning_rate (train_config.text_encoder config)),
                create_param_groups ext config (parameters u')
                  (learning_rate (train_config.unet config))] \<and>
         optimizer m' =
           Some (create_optimizer ext
                  [create_param_groups ext config (parameters v')
                     (learning_rate (train_config.text_encoder config)),
                   create_param_groups ext config (parameters u')
                     (learning_rate (train_config.unet config))] osd config)))"
proof (intro conjI impI)
  assume "text_encoder_lora m = Some v \<and> unet_lora m = Some u"
  then show "create_parameters_for_optimizer ext m config =
        Inr ((if train (train_config.text_encoder config)
              then [create_param_groups ext config (parameters v)
                      (learning_rate (train_config.text_encoder config))]
              else []) @
             (if train (train_config.unet config)
              then [create_param_groups ext config (parameters u)
                      (learning_rate (train_config.unet config))]
              else []))"
    using create_parameters_views(2) by blast
next
  show "lr_names config =
     (if train (train_config.text_encoder config) then [''te''] else []) @
     (if train (train_config.unet config) then [''unet''] else [])"
    by (simp add: lr_names_def)
next
  assume a: "train (train_config.text_encoder config) \<and> train (train_config.unet config) \<and>
    stop_training_after (train_config.text_encoder config) = None \<and>
    stop_training_after (train_config.unet config) = None \<and>
    setup_model ext m config = Inr m'"
  then have r: "setup_model ext m config = Inr m'" by simp
  obtain mc v' u' where
    opt: "setup_model ext m config = setup_model_optimizer ext mc config"
    and views: "text_encoder_lora mc = Some v'" "unet_lora mc = Some u'"
    and sd: "optimizer_state_dict mc = optimizer_state_dict m"
      "ema_state_dict mc = ema_state_dict m"
    using setup_model_phases [of ext m config] by blast
  from opt r have o: "setup_model_optimizer ext mc config = Inr m'" by simp
  note fr = setup_model_optimizer_frame [OF o]
  have v: "text_encoder_lora m' = Some v'" "unet_lora m' = Some u'"
    using fr(2,3) views by simp_all
  from o obtain osd esd where
    "optimizer_state_dict mc = Some osd" "ema_state_dict mc = Some esd"
    by (auto simp: setup_model_optimizer_def Let_def split: sum.splits option.splits)
  from setup_model_optimizer_result [OF views this, of ext config] o a
  have op: "optimizer m' =
           Some (create_optimizer ext
                  [create_param_groups ext config (parameters v')
                     (learning_rate (train_config.text_encoder config)),
                   create_param_groups ext config (parameters u')
                     (learning_rate (train_config.unet config))] osd config)"
    by simp
  have g: "create_parameters_for_optimizer ext m' config =
           Inr [create_param_groups ext config (parameters v')
                  (learning_rate (train_config.text_encoder config)),
                create_param_groups ext config (parameters u')
                  (learning_rate (train_config.unet config))]"
    using create_parameters_views(2) [OF v, of ext config] a by simp
  have flags: "requires_grad m' =
        gate_flags m' config (\<lambda>p. if p \<in> base_parameters m then False else requires_grad m p)"
    using phase_gate_flags_of_setup [OF r] .
  have "\<forall>p \<in> set (parameters v') \<union> set (parameters u'). requires_grad m' p"
    using a v
    by (subst flags)
       (auto simp: gate_flags_def view_parameters_def stop_text_encoder_training_elapsed_def
          stop_unet_training_elapsed_def stop_training_elapsed_def)
  with v g op show "\<exists>v' u' osd.
         text_encoder_lora m' = Some v' \<and> unet_lora m' = Some u' \<and>
         (\<forall>p \<in> set (parameters v') \<union> set (parameters u'). requires_grad m' p) \<and>
         create_parameters_for_optimizer ext m' config =
           Inr [create_param_groups ext config (parameters v')
                  (learning_rate (train_config.text_encoder config)),
                create_param_groups ext config (parameters u')
                  (learning_rate (train_config.unet config))] \<and>
         optimizer m' =
           Some (create_optimizer ext
                  [create_param_groups ext config (parameters v')
                     (learning_rate (train_config.text_encoder config)),
                   create_param_groups ext config (parameters u')
                     (learning_rate (train_config.unet config))] osd config)"
    by blast
qed

theorem parameter_groups_order_witness:
  "\<exists>m'. setup_model example_collaborators example_model example_config = Inr m' \<and>
     requires_grad m' 10 \<and> requires_grad m' 20 \<and>
     create_parameters_for_optimizer example_collaborators m' example_config =
       Inr [\<lparr>params = [1, 2, 10, 11], lr = 1 / 1000\<rparr>, \<lparr>params = [3, 4, 20, 21], lr = 1 / 10000\<rparr>] \<and>
     lr_names example_config = [''te'', ''unet'']"
proof -
  obtain m' where r: "setup_model example_collaborators example_model example_config = Inr m'"
    using example_setup_model by blast
  have c: "train (train_config.text_encoder example_config) \<and>
      train (train_config.unet example_config) \<and>
      stop_training_after (train_config.text_encoder example_config) = None \<and>
      stop_training_after (train_config.unet example_config) = None"
    by (simp add: example_config_def)
  note t = parameter_groups_order [of example_model _ _ example_collaborators example_config m']
  from t have n: "lr_names example_config =
      (if train (train_config.text_encoder example_config) then [''te''] else []) @
      (if train (train_config.unet example_config) then [''unet''] else [])"
    by (rule conjunct1 [OF conjunct2])
  from t r c have "\<exists>v' u'. text_encoder_lora m' = Some v' \<and> unet_lora m' = Some u' \<and>
      (\<forall>p \<in> set (parameters v') \<union> set (parameters u'). requires_grad m' p) \<and>
      create_parameters_for_optimizer example_collaborators m' example_config =
           Inr [create_param_groups example_collaborators example_config (parameters v')
                  (learning_rate (train_config.text_encoder example_config)),
                create_param_groups example_collaborators example_config (parameters u')
                  (learning_rate (train_config.unet example_config))]"
    by blast
  then obtain v' u' where v: "text_encoder_lora m' = Some v'" "unet_lora m' = Some u'"
    and g: "\<forall>p \<in> set (parameters v') \<union> set (parameters u'). requires_grad m' p"
    and p: "create_parameters_for_optimizer example_collaborators m' example_config =
           Inr [create_param_groups example_collaborators example_config (parameters v')
                  (learning_rate (train_config.text_encoder example_config)),
                create_param_groups example_collaborators example_config (parameters u')
                  (learning_rate (train_config.unet example_config))]"
    by blast
  have "parameters v' = [1, 2, 10, 11]" "parameters u' = [3, 4, 20, 21]"
    using setup_model_result(1,2) [OF r] v example_installed_views(1,2)
    by (simp_all add: example_model_installed_def)
  with g p n r c show ?thesis
    by (auto simp: example_collaborators_def example_config_def)
qed

subsection \<open>The progress that the gate reads\<close>

text \<open>
  Claim C10. \<^verbatim>\<open>after_optimizer_step\<close> does not depend on the training progress it is
  passed: two calls on the same model and configuration that differ in that argument
  return the same model. The gate reads the progress that the model holds.
\<close>

theorem after_optimizer_step_ignores_argument:
  "after_optimizer_step m config tp = after_optimizer_step m config tp'"
  by (simp add: after_optimizer_step_def)

text \<open>
  Claim C8. In the spec's words the gate is \<open>should_train\<close>, and it is the flag that
  the code computes for the text encoder and for the denoising network. Past the stop
  step of a sub-network the gate is false, and a gate that is false stays false at every
  later progress. So it is with the flags that \<^verbatim>\<open>after_optimizer_step\<close> writes: on a
  model whose progress is past the stop step of a sub-network, the parameters of that
  sub-network's view do not require gradients afterwards, and a parameter of a view that
  the step has turned off is not turned on again by the step on a model with the same
  views and a later progress. For the view of the text encoder this is said of the
  parameters that the view of the denoising network, written after it, does not hold.
\<close>

theorem phase_gate_one_way:
  "(stop_training_after pc = Some n \<and> n < global_step tp \<longrightarrow> \<not> should_train pc tp) \<and>
   (global_step tp \<le> global_step tp' \<and> \<not> should_train pc tp \<longrightarrow> \<not> should_train pc tp') \<and>
   should_train (train_config.text_encoder config) tp =
     (train (train_config.text_encoder config) \<and>
      \<not> stop_text_encoder_training_elapsed config tp) \<and>
   should_train (train_config.unet config) tp =
     (train (train_config.unet config) \<and> \<not> stop_unet_training_elapsed config tp) \<and>
   (p \<in> view_parameters (unet_lora m) \<and>
    stop_training_after (train_config.unet config) = Some k \<and>
    k < global_step (train_progress m) \<longrightarrow>
      \<not> requires_grad (after_optimizer_step m config arg) p) \<and>
   (p \<in> view_parameters (text_encoder_lora m) \<and> p \<notin> view_parameters (unet_lora m) \<and>
    stop_training_after (train_config.text_encoder config) = Some k \<and>
    k < global_step (train_progress m) \<longrightarrow>
      \<not> requires_grad (after_optimizer_step m config arg) p) \<and>
   (text_encoder_lora m' = text_encoder_lora m \<and> unet_lora m' = unet_lora m \<and>
    global_step (train_progress m) \<le> global_step (train_progress m') \<and>
    (p \<in> view_parameters (unet_lora m) \<or> p \<in> view_parameters (text_encoder_lora m)) \<and>
    \<not> requires_grad (after_optimizer_step m config arg) p \<longrightarrow>
      \<not> requires_grad (after_optimizer_step m' config arg') p)"
proof -
  have gate: "(stop_training_after pc = Some n \<and> n < global_step tp \<longrightarrow> \<not> should_train pc tp) \<and>
   (global_step tp \<le> global_step tp' \<and> \<not> should_train pc tp \<longrightarrow> \<not> should_train pc tp') \<and>
   should_train (train_config.text_encoder config) tp =
     (train (train_config.text_encoder config) \<and>
      \<not> stop_text_encoder_training_elapsed config tp) \<and>
   should_train (train_config.unet config) tp =
     (train (train_config.unet config) \<and> \<not> stop_unet_training_elapsed config tp)"
    by (auto simp: should_train_def stop_training_elapsed_def
        stop_text_encoder_training_elapsed_def stop_unet_training_elapsed_def
        split: option.splits)
  have unet_off: "p \<in> view_parameters (unet_lora m) \<and>
    stop_training_after (train_config.unet config) = Some k \<and>
    k < global_step (train_progress m) \<longrightarrow>
      \<not> requires_grad (after_optimizer_step m config arg) p"
    by (simp add: after_optimizer_step_flags gate_flags_def stop_unet_training_elapsed_def
        stop_training_elapsed_def)
  have te_off: "p \<in> view_parameters (text_encoder_lora m) \<and>
    p \<notin> view_parameters (unet_lora m) \<and>
    stop_training_after (train_config.text_encoder config) = Some k \<and>
    k < global_step (train_progress m) \<longrightarrow>
      \<not> requires_grad (after_optimizer_step m config arg) p"
    by (simp add: after_optimizer_step_flags gate_flags_def
        stop_text_encoder_training_elapsed_def stop_training_elapsed_def)
  have stays: "text_encoder_lora m' = text_encoder_lora m \<and> unet_lora m' = unet_lora m \<and>
    global_step (train_progress m) \<le> global_step (train_progress m') \<and>
    (p \<in> view_parameters (unet_lora m) \<or> p \<in> view_parameters (text_encoder_lora m)) \<and>
    \<not> requires_grad (after_optimizer_step m config arg) p \<longrightarrow>
      \<not> requires_grad (after_optimizer_step m' config arg') p"
    by (auto simp: after_optimizer_step_flags gate_flags_def
        stop_text_encoder_training_elapsed_def stop_unet_training_elapsed_def
        stop_training_elapsed_def split: option.splits if_splits)
  from gate unet_off te_off stays show ?thesis
    by (intro conjI) blast+
qed

theorem phase_gate_one_way_witness:
  "should_train \<lparr>train = True, learning_rate = 1, stop_training_after = Some 5\<rparr> \<lparr>global_step = 5\<rparr> \<and>
   \<not> should_train \<lparr>train = True, learning_rate = 1, stop_training_after = Some 5\<rparr> \<lparr>global_step = 6\<rparr> \<and>
   \<not> should_train \<lparr>train = True, learning_rate = 1, stop_training_after = Some 5\<rparr> \<lparr>global_step = 9\<rparr> \<and>
   requires_grad
     (after_optimizer_step (example_model_installed\<lparr>train_progress := \<lparr>global_step = 5\<rparr>\<rparr>)
        (example_config\<lparr>train_config.unet :=
           \<lparr>train = True, learning_rate = 1, stop_training_after = Some 5\<rparr>\<rparr>)
        \<lparr>global_step = 0\<rparr>) 20 \<and>
   \<not> requires_grad
     (after_optimizer_step (example_model_installed\<lparr>train_progress := \<lparr>global_step = 6\<rparr>\<rparr>)
        (example_config\<lparr>train_config.unet :=
           \<lparr>train = True, learning_rate = 1, stop_training_after = Some 5\<rparr>\<rparr>)
        \<lparr>global_step = 0\<rparr>) 20 \<and>
   \<not> requires_grad
     (after_optimizer_step (example_model_installed\<lparr>train_progress := \<lparr>global_step = 9\<rparr>\<rparr>)
        (example_config\<lparr>train_config.unet :=
           \<lparr>train = True, learning_rate = 1, stop_training_after = Some 5\<rparr>\<rparr>)
        \<lparr>global_step = 0\<rparr>) 20"
proof -
  let ?pc = "\<lparr>train = True, learning_rate = 1, stop_training_after = Some 5\<rparr>"
  let ?config = "example_config\<lparr>train_config.unet := ?pc\<rparr>"
  let ?m5 = "example_model_installed\<lparr>train_progress := \<lparr>global_step = 5\<rparr>\<rparr>"
  let ?m6 = "example_model_installed\<lparr>train_progress := \<lparr>global_step = 6\<rparr>\<rparr>"
  let ?m9 = "example_model_installed\<lparr>train_progress := \<lparr>global_step = 9\<rparr>\<rparr>"
  have a: "stop_training_after ?pc = Some 5 \<and> 5 < global_step \<lparr>global_step = 6\<rparr>"
    by simp
  from phase_gate_one_way [of ?pc 5 "\<lparr>global_step = 6\<rparr>"] a
  have b: "\<not> should_train ?pc \<lparr>global_step = 6\<rparr>" by blast
  have "global_step \<lparr>global_step = 6\<rparr> \<le> global_step \<lparr>global_step = 9\<rparr>" by simp
  with phase_gate_one_way [of ?pc 5 "\<lparr>global_step = 6\<rparr>" "\<lparr>global_step = 9\<rparr>"] b
  have c: "\<not> should_train ?pc \<lparr>global_step = 9\<rparr>" by blast
  have d: "should_train ?pc \<lparr>global_step = 5\<rparr>"
    by (simp add: should_train_def stop_training_elapsed_def)
  have v: "20 \<in> view_parameters (unet_lora ?m6)" "unet_lora ?m9 = unet_lora ?m6"
    "text_encoder_lora ?m9 = text_encoder_lora ?m6"
    by (simp_all add: view_parameters_def example_installed_views)
  have s: "stop_training_after (train_config.unet ?config) = Some 5"
    "5 < global_step (train_progress ?m6)"
    "global_step (train_progress ?m6) \<le> global_step (train_progress ?m9)"
    by simp_all
  from phase_gate_one_way [where p = 20 and m = ?m6 and config = ?config and k = 5
      and arg = "\<lparr>global_step = 0\<rparr>"] v(1) s(1,2)
  have e: "\<not> requires_grad (after_optimizer_step ?m6 ?config \<lparr>global_step = 0\<rparr>) 20"
    by blast
  from phase_gate_one_way [where p = 20 and m = ?m6 and m' = ?m9 and config = ?config
      and arg = "\<lparr>global_step = 0\<rparr>" and arg' = "\<lparr>global_step = 0\<rparr>"] v s(3) e
  have f: "\<not> requires_grad (after_optimizer_step ?m9 ?config \<lparr>global_step = 0\<rparr>) 20"
    by blast
  have g: "requires_grad (after_optimizer_step ?m5 ?config \<lparr>global_step = 0\<rparr>) 20"
    by (simp add: after_optimizer_step_flags gate_flags_def view_parameters_def
        example_installed_views stop_unet_training_elapsed_def stop_training_elapsed_def
        example_config_def)
  from b c d e f g show ?thesis by blast
qed

subsection \<open>Device placement\<close>

text \<open>
  Claim C6. \<^verbatim>\<open>setup_train_device\<close> places the VAE on the training device if the
  setup is in debug mode or the configuration aligns properties, and on the offload
  device otherwise; the text encoder on the training device if it is trained, or
  properties are aligned, or latents are not cached, and on the offload device
  otherwise; the denoising network on the training device; the depth estimator, if the
  model has one, on the offload device. The VAE is in evaluation mode afterwards; the
  text encoder and the denoising network are in training mode exactly if they are
  trained. Where the two devices differ, each condition is necessary as well.
\<close>

theorem device_placement:
  "vae_device (setup_train_device self m config) =
     (if debug_mode self \<or> align_prop config then train_device self else temp_device self) \<and>
   text_encoder_device (setup_train_device self m config) =
     (if train (train_config.text_encoder config) \<or> align_prop config \<or>
         \<not> latent_caching config
      then train_device self else temp_device self) \<and>
   unet_device (setup_train_device self m config) = train_device self \<and>
   depth_estimator_device (setup_train_device self m config) =
     map_option (\<lambda>d. temp_device self) (depth_estimator_device m) \<and>
   \<not> training (vae (setup_train_device self m config)) \<and>
   training (model.text_encoder (setup_train_device self m config)) =
     train (train_config.text_encoder config) \<and>
   training (model.unet (setup_train_device self m config)) = train (train_config.unet config) \<and>
   (train_device self \<noteq> temp_device self \<longrightarrow>
      (vae_device (setup_train_device self m config) = train_device self) =
        (debug_mode self \<or> align_prop config) \<and>
      (text_encoder_device (setup_train_device self m config) = train_device self) =
        (train (train_config.text_encoder config) \<or> align_prop config \<or>
         \<not> latent_caching config))"
  by (simp add: setup_train_device_def Let_def text_encoder_to_def vae_to_def unet_to_def
      depth_estimator_to_def module_train_def module_eval_def)

theorem device_placement_witness:
  "vae_device (setup_train_device example_setup example_model example_config) = ''cpu'' \<and>
   text_encoder_device (setup_train_device example_setup example_model example_config) = ''cuda'' \<and>
   text_encoder_device (setup_train_device example_setup example_model example_config_frozen) = ''cpu'' \<and>
   unet_device (setup_train_device example_setup example_model example_config) = ''cuda'' \<and>
   depth_estimator_device (setup_train_device example_setup example_model example_config) = Some ''cpu'' \<and>
   \<not> training (vae (setup_train_device example_setup example_model example_config))"
proof -
  have d: "train_device example_setup \<noteq> temp_device example_setup"
    by (simp add: example_setup_def)
  from device_placement [of example_setup example_model example_config]
    device_placement [of example_setup example_model example_config_frozen] d
  show ?thesis
    by (simp add: example_setup_def example_config_def example_config_frozen_def example_model_def)
qed

subsection \<open>Reporting the learning rates\<close>





subsection \<open>The base networks and the gradient flags\<close>

text \<open>
  What \<^verbatim>\<open>setup_model\<close> guarantees for a parameter of a base network or of the VAE:
  it is frozen unless a view holds it too. \<^verbatim>\<open>after_optimizer_step\<close> writes to the
  parameters of the views only.
\<close>

lemma base_frozen_outside_views:
  assumes "setup_model ext m config = Inr m'"
    and "p \<in> base_parameters m'"
    and "p \<notin> view_parameters (text_encoder_lora m')" "p \<notin> view_parameters (unet_lora m')"
  shows "\<not> requires_grad m' p"
  using assms(2-4) setup_model_result(4) [OF assms(1)]
  by (subst phase_gate_flags_of_setup [OF assms(1)]) (simp add: gate_flags_def)

lemma after_optimizer_step_outside_views:
  assumes "p \<notin> view_parameters (text_encoder_lora m)" "p \<notin> view_parameters (unet_lora m)"
  shows "requires_grad (after_optimizer_step m config tp) p = requires_grad m p"
  using assms by (simp add: after_optimizer_step_flags gate_flags_def)

text \<open>
  Claim C5 says that after \<^verbatim>\<open>setup_model\<close> the parameters of the base text encoder,
  of the base denoising network and of the VAE do not require gradients, for every
  configuration and every model. The code freezes the three networks first and applies
  the gates to the views afterwards, and the flag of a view is written to every
  parameter the view holds. A view built by wrapping its base network holds the base
  weights, so with a gate that is open the base weights require gradients again when
  \<^verbatim>\<open>setup_model\<close> returns: here the parameters 1 and 3 of the two base networks, while
  the VAE, which no view holds, stays frozen.
\<close>

theorem base_weights_trainable_after_setup:
  "\<exists>m'. setup_model example_collaborators example_model example_config = Inr m' \<and>
     1 \<in> base_parameters m' \<and> requires_grad m' 1 \<and>
     3 \<in> base_parameters m' \<and> requires_grad m' 3 \<and>
     5 \<in> base_parameters m' \<and> \<not> requires_grad m' 5"
proof -
  obtain m' where r: "setup_model example_collaborators example_model example_config = Inr m'"
    using example_setup_model by blast
  note res = setup_model_result [OF r]
  have views: "view_parameters (text_encoder_lora m') = {1, 2, 10, 11}"
    "view_parameters (unet_lora m') = {3, 4, 20, 21}"
    using res(1,2) example_installed_views
    by (simp_all add: view_parameters_def example_model_installed_def)
  have b: "base_parameters m' = {1, 2, 3, 4, 5}"
    using res(4) example_installed_views(4) by simp
  have "requires_grad m' 1" "requires_grad m' 3" "\<not> requires_grad m' 5"
    by (simp_all add: phase_gate_flags_of_setup [OF r] gate_flags_def views example_gates
        example_installed_views(4))
  with r b show ?thesis by auto
qed

end
